theory Spec2Isabelle
  imports Complex_Main
begin

section \<open>Sunrise and sunset times: the calculation of \<open>sunrise_sunset.py\<close>\<close>

text \<open>
  The module \<open>sunrise_sunset.py\<close> defines a class \<open>location\<close> whose method \<open>ss_calc\<close>
  computes the UTC time at which the sun rises or sets on a date. This theory embeds the
  class and the method and proves properties of them.

  Idealisation. Python's \<open>float\<close> is modelled as \<open>real\<close> and the functions of the \<open>math\<close>
  module as the functions of real analysis: every rounding of the IEEE arithmetic is left
  out. What the interpreter raises is kept: \<open>math.asin\<close> and \<open>math.acos\<close> raise
  \<open>ValueError\<close> outside \<open>[-1, 1]\<close>, a division by zero raises \<open>ZeroDivisionError\<close>, a
  failed \<open>assert\<close> raises \<open>AssertionError\<close>, and \<open>datetime.datetime\<close> raises
  \<open>ValueError\<close> for a field out of range.
\<close>

subsection \<open>Values, errors, dates\<close>

text \<open>The argument values the constructor of \<open>location\<close> tells apart by their type.\<close>

datatype pyval = PyFloat real | PyInt int | PyBool bool | PyStr string | PyNone

text \<open>The exceptions that leave \<open>location.__init__\<close> and \<open>ss_calc\<close>, with Python's message.\<close>

datatype error = AssertionError | ValueError string | ZeroDivisionError

text \<open>\<open>datetime.date\<close>: year, month and day.\<close>

record date =
  year :: int
  month :: int
  day :: int

datatype tz = naive | tzutc

text \<open>\<open>datetime.datetime\<close> is a subclass of \<open>datetime.date\<close>.\<close>

record datetime = date +
  hour :: int
  minute :: int
  second :: int
  tzinfo :: tz

definition is_leap :: "int \<Rightarrow> bool" where
  "is_leap y = (if y mod 400 = 0 then True else if y mod 100 = 0 then False else y mod 4 = 0)"

definition days_in_month :: "int \<Rightarrow> int \<Rightarrow> int" where
  "days_in_month y m =
     (if m = 2 then (if is_leap y then 29 else 28)
      else if m = 4 \<or> m = 6 \<or> m = 9 \<or> m = 11 then 30 else 31)"

text \<open>
  The dates that \<open>datetime.date\<close> can hold (proleptic Gregorian, years 1 to 9999): the
  library refuses every other triple, so \<open>ss_calc\<close> only ever receives these.
\<close>

definition valid_date :: "date \<Rightarrow> bool" where
  "valid_date d =
     (1 \<le> year d \<and> year d \<le> 9999 \<and> 1 \<le> month d \<and> month d \<le> 12 \<and>
      1 \<le> day d \<and> day d \<le> days_in_month (year d) (month d))"

text \<open>
  The constructor \<open>datetime.datetime(year, month, day, hour=, minute=, second=, tzinfo=)\<close>
  of the standard library, which checks the fields in this order.
\<close>

definition datetime_new :: "int \<Rightarrow> int \<Rightarrow> int \<Rightarrow> int \<Rightarrow> int \<Rightarrow> int \<Rightarrow> tz \<Rightarrow> error + datetime" where
  "datetime_new y m d hh mm ss zone =
     (if \<not> (1 \<le> y \<and> y \<le> 9999) then Inl (ValueError ''year is out of range'')
      else if \<not> (1 \<le> m \<and> m \<le> 12) then Inl (ValueError ''month must be in 1..12'')
      else if \<not> (1 \<le> d \<and> d \<le> days_in_month y m)
        then Inl (ValueError ''day is out of range for month'')
      else if \<not> (0 \<le> hh \<and> hh \<le> 23) then Inl (ValueError ''hour must be in 0..23'')
      else if \<not> (0 \<le> mm \<and> mm \<le> 59) then Inl (ValueError ''minute must be in 0..59'')
      else if \<not> (0 \<le> ss \<and> ss \<le> 59) then Inl (ValueError ''second must be in 0..59'')
      else Inr \<lparr>year = y, month = m, day = d, hour = hh, minute = mm, second = ss,
                tzinfo = zone\<rparr>)"

subsection \<open>Messages\<close>

text \<open>
  A message is the format string of the source with the values substituted into it. A
  printed line is the elapsed time, the class name, the method name and the message, as in
  \<open>print("---- %4.4f %s.%s - %s" % (...))\<close>. The world holds what \<open>time.time()\<close> returns and
  the lines printed so far.
\<close>

datatype arg = S string | I int | F real

datatype msg = Fmt string "arg list"

type_synonym line = "real \<times> string \<times> string \<times> msg"

record world =
  now :: real
  stdout :: "line list"

text \<open>The attributes of a \<open>location\<close> object (those of \<open>local_template\<close> first).\<close>

record location =
  verbose :: int
  start_time :: real
  typename :: string
  classname :: string
  latitude :: real
  longitude :: real
  zenith_attr :: "string list"

definition print_line :: "location \<Rightarrow> string \<Rightarrow> string \<Rightarrow> msg \<Rightarrow> world \<Rightarrow> world" where
  "print_line self cls method m w =
     w\<lparr>stdout := stdout w @ [(now w - start_time self, cls, method, m)]\<rparr>"

text \<open>\<open>local_template.message\<close>: prints when \<open>verbosity <= self.verbose\<close>.\<close>

definition message :: "location \<Rightarrow> int \<Rightarrow> msg \<Rightarrow> string \<Rightarrow> string \<Rightarrow> world \<Rightarrow> world" where
  "message self verbosity m cls method w =
     (let cls' = (if cls = [] then classname self else cls)
      in if verbosity \<le> verbose self then print_line self cls' method m w else w)"

text \<open>\<open>local_template.set_verbose\<close>: returns the old level, the changed object and the world.\<close>

definition set_verbose :: "location \<Rightarrow> int \<Rightarrow> world \<Rightarrow> int \<times> location \<times> world" where
  "set_verbose self verbosity w =
     (let old_verbosity = verbose self;
          self' = self\<lparr>verbose := verbosity\<rparr>;
          w' = (if old_verbosity \<noteq> verbose self' \<and> verbosity > 0
                then print_line self' (classname self') ''set_verbose''
                       (Fmt ''set_verbose - Altering verbose from %s to %s''
                          [I old_verbosity, I (verbose self')]) w
                else w)
      in (old_verbosity, self', w'))"

subsection \<open>The constructor\<close>

text \<open>
  \<open>location.__init__(self, latitude, longitude, verbose=1)\<close>. The attributes are assigned
  before the two assertions on their type; an assertion that fails raises and no object is
  returned. The name of the module is part of the class name and is a parameter here.
\<close>

definition is_float :: "pyval \<Rightarrow> bool" where
  "is_float v = (case v of PyFloat _ \<Rightarrow> True | _ \<Rightarrow> False)"

definition float_of :: "pyval \<Rightarrow> real" where
  "float_of v = (case v of PyFloat x \<Rightarrow> x | _ \<Rightarrow> 0)"

definition location_init ::
  "string \<Rightarrow> pyval \<Rightarrow> pyval \<Rightarrow> int \<Rightarrow> world \<Rightarrow> (error + location) \<times> world" where
  "location_init modname lat lon verbosity w =
     (let self0 = \<lparr>verbose = 1, start_time = now w, typename = ''location'',
                   classname = modname @ ''.location'', latitude = 0, longitude = 0,
                   zenith_attr = []\<rparr>;
          (old, self1, w1) = set_verbose self0 verbosity w;
          w2 = message self1 1 (Fmt ''location class constructor'' []) [] ''__init__'' w1
      in if \<not> is_float lat then (Inl AssertionError, w2)
         else if \<not> is_float lon then (Inl AssertionError, w2)
         else (Inr (self1\<lparr>latitude := float_of lat, longitude := float_of lon,
                           zenith_attr := [''official'']\<rparr>), w2))"

text \<open>The call \<open>location(latitude, longitude)\<close> with the default \<open>verbose=1\<close>.\<close>

definition location_new :: "string \<Rightarrow> pyval \<Rightarrow> pyval \<Rightarrow> world \<Rightarrow> (error + location) \<times> world" where
  "location_new modname lat lon w = location_init modname lat lon 1 w"

subsection \<open>Trigonometry in degrees\<close>

definition radians :: "real \<Rightarrow> real" where
  "radians x = x * pi / 180"

definition degrees :: "real \<Rightarrow> real" where
  "degrees x = x * 180 / pi"

definition ss_sin :: "real \<Rightarrow> real" where
  "ss_sin angle_360 = sin (radians angle_360)"

definition ss_cos :: "real \<Rightarrow> real" where
  "ss_cos angle_360 = cos (radians angle_360)"

definition ss_tan :: "real \<Rightarrow> real" where
  "ss_tan angle_360 = tan (radians angle_360)"

definition ss_asin :: "real \<Rightarrow> error + real" where
  "ss_asin ss_sine =
     (if -1 \<le> ss_sine \<and> ss_sine \<le> 1 then Inr (degrees (arcsin ss_sine))
      else Inl (ValueError ''math domain error''))"

definition ss_acos :: "real \<Rightarrow> error + real" where
  "ss_acos ss_cosine =
     (if -1 \<le> ss_cosine \<and> ss_cosine \<le> 1 then Inr (degrees (arccos ss_cosine))
      else Inl (ValueError ''math domain error''))"

definition ss_atan :: "real \<Rightarrow> real" where
  "ss_atan ss_tangent = degrees (arctan ss_tangent)"

text \<open>Python's \<open>/\<close> on floats and \<open>int()\<close> of a float (truncation towards zero).\<close>

definition py_div :: "real \<Rightarrow> real \<Rightarrow> error + real" where
  "py_div a b = (if b = 0 then Inl ZeroDivisionError else Inr (a / b))"

definition py_int :: "real \<Rightarrow> int" where
  "py_int x = (if 0 \<le> x then \<lfloor>x\<rfloor> else \<lceil>x\<rceil>)"

subsection \<open>The steps of \<open>ss_calc\<close>\<close>

text \<open>The zenith: the name used in the messages and the angle in degrees.\<close>

definition convert_zenith :: "string \<Rightarrow> string \<times> real" where
  "convert_zenith z =
     (if z = ''official'' then (z, 90 + 50 / 60)
      else if z = ''civil'' then (z, 96)
      else if z = ''nautical'' then (z, 102)
      else if z = ''astronomical'' then (z, 108)
      else (''default (official)'', 90 + 50 / 60))"

text \<open>Step 1, the day of the year.\<close>

definition day_of_year :: "date \<Rightarrow> int" where
  "day_of_year d =
     (let N1 = \<lfloor>real_of_int (275 * month d) / 9\<rfloor>;
          N2 = \<lfloor>real_of_int (month d + 9) / 12\<rfloor>;
          N3 = 1 + \<lfloor>real_of_int (year d - 4 * \<lfloor>real_of_int (year d) / 4\<rfloor> + 2) / 3\<rfloor>
      in N1 - (N2 * N3) + day d - 30)"

text \<open>Step 2, the longitude in hours and the approximate time \<open>t\<close>.\<close>

definition lng_hour :: "location \<Rightarrow> real" where
  "lng_hour self = longitude self / 15"

definition approx_time :: "int \<Rightarrow> real \<Rightarrow> bool \<Rightarrow> real" where
  "approx_time N lngHour rising =
     (if rising then real_of_int N + ((6 - lngHour) / 24)
      else real_of_int N + ((18 - lngHour) / 24))"

text \<open>Step 3, the mean anomaly of the sun.\<close>

definition mean_anomaly :: "real \<Rightarrow> real" where
  "mean_anomaly t = ((360 / 365.2596358) * t) - 3.289"

text \<open>Step 4, the true longitude of the sun, moved once towards \<open>[0, 360]\<close>.\<close>

definition sun_true_longitude :: "real \<Rightarrow> real" where
  "sun_true_longitude M =
     (let L = M + (1.916 * ss_sin M) + (0.020 * ss_sin (2 * M)) + 282.634
      in if L > 360 then L - 360 else if L < 0 then L + 360 else L)"

text \<open>Step 5a, the right ascension before the quadrant is corrected.\<close>

definition right_ascension_5a :: "real \<Rightarrow> real" where
  "right_ascension_5a L =
     (let RA = ss_atan (0.91764 * ss_tan L)
      in if RA > 360 then RA - 360 else if RA < 0 then RA + 360 else RA)"

text \<open>Step 5b, the right ascension in the quadrant of \<open>L\<close>; step 5c, in hours.\<close>

definition right_ascension :: "real \<Rightarrow> real \<Rightarrow> real" where
  "right_ascension L RA =
     (let Lquadrant = real_of_int \<lfloor>L / 90\<rfloor> * 90;
          RAquadrant = real_of_int \<lfloor>RA / 90\<rfloor> * 90
      in RA + (Lquadrant - RAquadrant))"

definition right_ascension_hours :: "real \<Rightarrow> real" where
  "right_ascension_hours RA = RA / 15"

text \<open>Step 6, the sine of the declination of the sun.\<close>

definition sin_dec :: "real \<Rightarrow> real" where
  "sin_dec L = 0.39782 * ss_sin L"

text \<open>Step 9, the single move of the time towards \<open>[0, 24]\<close>.\<close>

definition adjust_utc :: "real \<Rightarrow> real" where
  "adjust_utc UTC = (if UTC > 24 then UTC - 24 else if UTC < 0 then UTC + 24 else UTC)"

text \<open>Step 10, hours, minutes and seconds by truncation.\<close>

definition local_hms :: "real \<Rightarrow> int \<times> int \<times> int" where
  "local_hms UTC =
     (let local_hour = py_int UTC;
          local_minute_dec = UTC - real_of_int local_hour;
          local_minute = py_int (local_minute_dec * 60);
          local_second_dec = UTC - real_of_int local_hour - (real_of_int local_minute / 60);
          local_second = py_int (local_second_dec * 3600)
      in (local_hour, local_minute, local_second))"

subsection \<open>\<open>ss_calc\<close>\<close>

text \<open>
  The method, with the messages in the order of the source. An exception ends the
  computation with the lines printed up to there.
\<close>

definition ss_calc ::
  "location \<Rightarrow> date \<Rightarrow> string \<Rightarrow> bool \<Rightarrow> world \<Rightarrow> (error + datetime) \<times> world" where
  "ss_calc self d z rising w0 =
     (let (zname, zenith_deg) = convert_zenith z;
          w1 = message self 2 (Fmt ''Using zenith - %s = %.3f deg'' [S zname, F zenith_deg])
                 [] ''ss_calc'' w0;
          rising_setting = (if rising then ''rising'' else ''setting'');
          N = day_of_year d;
          w2 = message self 2 (Fmt ''Day of the year is %s'' [I N]) [] ''ss_calc'' w1;
          lngHour = lng_hour self;
          t = approx_time N lngHour rising;
          w3 = message self 3 (Fmt ''Longitude expressed in hours = %s'' [F lngHour])
                 [] ''ss_calc'' w2;
          w4 = message self 3 (Fmt ''Approximate time (%s) = %s'' [S rising_setting, F t])
                 [] ''ss_calc'' w3;
          M = mean_anomaly t;
          w5 = message self 3 (Fmt ''Sun's mean anomaly = %s'' [F M]) [] ''ss_calc'' w4;
          L = sun_true_longitude M;
          w6 = message self 3 (Fmt ''Sun's true longitude (%s) = %s'' [S rising_setting, F L])
                 [] ''ss_calc'' w5;
          RA0 = right_ascension_5a L;
          w7 = message self 3
                 (Fmt ''Sun's right ascension before quadrant calculation (%s) = %s''
                    [S rising_setting, F RA0]) [] ''ss_calc'' w6;
          RA = right_ascension L RA0;
          w8 = message self 3 (Fmt ''Sun's right ascension (%s) = %s'' [S rising_setting, F RA])
                 [] ''ss_calc'' w7;
          RAh = right_ascension_hours RA;
          w9 = message self 3
                 (Fmt ''Sun's right ascension in hours (%s) = %s'' [S rising_setting, F RAh])
                 [] ''ss_calc'' w8;
          sinDec = sin_dec L
      in case ss_asin sinDec of
           Inl e \<Rightarrow> (Inl e, w9)
         | Inr dec \<Rightarrow>
     (let cosDec = ss_cos dec;
          w10 = message self 3
                  (Fmt ''Sun's declination (%s) = %s, %s'' [S rising_setting, F sinDec, F cosDec])
                  [] ''ss_calc'' w9
      in case py_div (ss_cos zenith_deg - (sinDec * ss_sin (latitude self)))
                     (cosDec * ss_cos (latitude self)) of
           Inl e \<Rightarrow> (Inl e, w10)
         | Inr cosH \<Rightarrow>
     (let w11 = message self 3
                  (Fmt ''Sun's local hour angle (%s) = %s'' [S rising_setting, F cosH])
                  [] ''ss_calc'' w10;
          w12 = (if cosH > 1
                 then message self 1
                        (Fmt ''The sun never rises on this location (on the specified date).'' [])
                        [] ''ss_calc'' w11
                 else w11);
          w13 = (if cosH < -1
                 then message self 1
                        (Fmt ''The sun never sets on this location (on the specified date).'' [])
                        [] ''ss_calc'' w12
                 else w12)
      in case ss_acos cosH of
           Inl e \<Rightarrow> (Inl e, w13)
         | Inr acosH \<Rightarrow>
     (let hour_angle = (if rising then 360 - acosH else acosH);
          hour_h = hour_angle / 15;
          w14 = message self 3 (Fmt ''Sun %s time (hours) = %s'' [S rising_setting, F hour_h])
                  [] ''ss_calc'' w13;
          local_mean_time = hour_h + RAh - (0.06571 * t) - 6.622;
          w15 = message self 3
                  (Fmt ''Local mean time (%s) = %s'' [S rising_setting, F local_mean_time])
                  [] ''ss_calc'' w14;
          UTC = adjust_utc (local_mean_time - lngHour);
          w16 = (if rising
                 then message self 3 (Fmt ''Rising time (UTC) = %s'' [F UTC]) [] ''ss_calc'' w15
                 else message self 3 (Fmt ''Setting time (UTC) = %s'' [F UTC]) [] ''ss_calc'' w15);
          (local_hour, local_minute, local_second) = local_hms UTC;
          w17 = message self 2
                  (Fmt ''local_hour = %s, local_minute = %s, local_second = %s''
                     [I local_hour, I local_minute, I local_second]) [] ''ss_calc'' w16
      in (datetime_new (year d) (month d) (day d) local_hour local_minute local_second tzutc,
          w17)))))"

text \<open>The two public methods.\<close>

definition sunrise :: "location \<Rightarrow> date \<Rightarrow> string \<Rightarrow> world \<Rightarrow> (error + datetime) \<times> world" where
  "sunrise self d z w0 =
     (let w1 = message self 1 (Fmt ''sunrise method called'' []) [] ''sunrise'' w0;
          (r, w2) = ss_calc self d z True w1
      in case r of
           Inl e \<Rightarrow> (Inl e, w2)
         | Inr sunrise_time \<Rightarrow>
             (Inr sunrise_time,
              message self 1
                (Fmt ''Sunrise is %i:%02i:%02i''
                   [I (hour sunrise_time), I (minute sunrise_time), I (second sunrise_time)])
                [] ''sunrise'' w2))"

definition sunset :: "location \<Rightarrow> date \<Rightarrow> string \<Rightarrow> world \<Rightarrow> (error + datetime) \<times> world" where
  "sunset self d z w0 =
     (let w1 = message self 1 (Fmt ''sunset method called'' []) [] ''sunset'' w0;
          (r, w2) = ss_calc self d z False w1
      in case r of
           Inl e \<Rightarrow> (Inl e, w2)
         | Inr sunset_time \<Rightarrow>
             (Inr sunset_time,
              message self 1
                (Fmt ''Sunset is %i:%02i:%02i''
                   [I (hour sunset_time), I (minute sunset_time), I (second sunset_time)])
                [] ''sunset'' w2))"

subsection \<open>Intermediate values and the order of timestamps\<close>

text \<open>
  Names for the intermediate values of \<open>ss_calc\<close>, as functions of its arguments: the
  approximate time \<open>t\<close>, the true longitude \<open>L\<close>, the cosine of the declination, the value
  \<open>cosH\<close> of step 7a, the time of step 9 before it is moved by 24 hours, and the part of
  that time that does not depend on the zenith. The lemma
  \<open>ss_calc_result\<close> below shows that they are the values \<open>ss_calc\<close> computes.
\<close>

definition approx_time_of :: "location \<Rightarrow> date \<Rightarrow> bool \<Rightarrow> real" where
  "approx_time_of self d rising = approx_time (day_of_year d) (lng_hour self) rising"

definition sun_longitude :: "location \<Rightarrow> date \<Rightarrow> bool \<Rightarrow> real" where
  "sun_longitude self d rising = sun_true_longitude (mean_anomaly (approx_time_of self d rising))"

definition cos_dec :: "real \<Rightarrow> real" where
  "cos_dec L = ss_cos (degrees (arcsin (sin_dec L)))"

definition cos_hour_angle :: "location \<Rightarrow> date \<Rightarrow> string \<Rightarrow> bool \<Rightarrow> real" where
  "cos_hour_angle self d z rising =
     (let L = sun_longitude self d rising
      in (ss_cos (snd (convert_zenith z)) - (sin_dec L * ss_sin (latitude self)))
         / (cos_dec L * ss_cos (latitude self)))"

definition utc_unadjusted :: "location \<Rightarrow> date \<Rightarrow> string \<Rightarrow> bool \<Rightarrow> real" where
  "utc_unadjusted self d z rising =
     (let t = approx_time_of self d rising;
          L = sun_longitude self d rising;
          RAh = right_ascension_hours (right_ascension L (right_ascension_5a L));
          acosH = degrees (arccos (cos_hour_angle self d z rising));
          hour_angle = (if rising then 360 - acosH else acosH)
      in hour_angle / 15 + RAh - (0.06571 * t) - 6.622 - lng_hour self)"

definition utc_base :: "location \<Rightarrow> date \<Rightarrow> bool \<Rightarrow> real" where
  "utc_base self d rising =
     (let t = approx_time_of self d rising;
          L = sun_longitude self d rising
      in right_ascension_hours (right_ascension L (right_ascension_5a L)) - (0.06571 * t)
         - 6.622 - lng_hour self)"

definition hms_datetime :: "date \<Rightarrow> real \<Rightarrow> error + datetime" where
  "hms_datetime d UTC =
     (case local_hms UTC of
        (hh, mm, ss) \<Rightarrow> datetime_new (year d) (month d) (day d) hh mm ss tzutc)"

text \<open>The order of \<open>datetime\<close> objects of one time zone: lexicographic on the fields.\<close>

definition timestamp_le :: "datetime \<Rightarrow> datetime \<Rightarrow> bool" where
  "timestamp_le a b =
     (year a < year b \<or> (year a = year b \<and>
       (month a < month b \<or> (month a = month b \<and>
         (day a < day b \<or> (day a = day b \<and>
           (hour a < hour b \<or> (hour a = hour b \<and>
             (minute a < minute b \<or> (minute a = minute b \<and> second a \<le> second b))))))))))"

text \<open>A location object as the constructor builds it, and a world with nothing printed.\<close>

definition place :: "real \<Rightarrow> real \<Rightarrow> location" where
  "place lat lon = \<lparr>verbose = 1, start_time = 0, typename = ''location'',
            classname = ''sunrise_sunset.location'', latitude = lat, longitude = lon,
            zenith_attr = [''official'']\<rparr>"

definition world0 :: world where
  "world0 = \<lparr>now = 0, stdout = []\<rparr>"

definition valid_location :: "location \<Rightarrow> bool" where
  "valid_location self =
     (-90 \<le> latitude self \<and> latitude self \<le> 90 \<and>
      -180 \<le> longitude self \<and> longitude self \<le> 180)"

section \<open>Properties\<close>

subsection \<open>The result of \<open>ss_calc\<close>\<close>

lemma sin_dec_range: "-1 \<le> sin_dec L \<and> sin_dec L \<le> 1"
proof -
  have "\<bar>ss_sin L\<bar> \<le> 1" by (simp add: ss_sin_def)
  then have "\<bar>sin_dec L\<bar> \<le> 0.39782" by (simp add: sin_dec_def abs_mult)
  then show ?thesis by simp linarith
qed

text \<open>
  The messages do not enter the result. \<open>math.asin\<close> never raises here, since its
  argument is at most 0.39782 in absolute value; the three ways to fail are the division,
  \<open>math.acos\<close> and the constructor of the timestamp.
\<close>

lemma ss_calc_result:
  "fst (ss_calc self d z rising w) =
     (if cos_dec (sun_longitude self d rising) * ss_cos (latitude self) = 0
      then Inl ZeroDivisionError
      else if \<not> (-1 \<le> cos_hour_angle self d z rising \<and> cos_hour_angle self d z rising \<le> 1)
      then Inl (ValueError ''math domain error'')
      else hms_datetime d (adjust_utc (utc_unadjusted self d z rising)))"
  using sin_dec_range [of "sun_longitude self d rising"]
  by (simp add: ss_calc_def Let_def ss_asin_def ss_acos_def py_div_def cos_hour_angle_def
      utc_unadjusted_def hms_datetime_def cos_dec_def sun_longitude_def approx_time_of_def
      case_prod_beta split: sum.splits)

lemma datetime_new_fields:
  "datetime_new y m dd hh mm ss zone = Inr ts \<Longrightarrow>
     year ts = y \<and> month ts = m \<and> day ts = dd \<and> hour ts = hh \<and> minute ts = mm \<and>
     second ts = ss \<and> tzinfo ts = zone \<and>
     0 \<le> hh \<and> hh \<le> 23 \<and> 0 \<le> mm \<and> mm \<le> 59 \<and> 0 \<le> ss \<and> ss \<le> 59"
  by (auto simp: datetime_new_def split: if_splits)

subsection \<open>The day of the year\<close>

lemma day_of_year_div:
  "day_of_year d =
     (275 * month d) div 9 - ((month d + 9) div 12) * (1 + (year d mod 4 + 2) div 3)
       + day d - 30"
proof -
  have a: "\<lfloor>real_of_int (275 * month d) / 9\<rfloor> = (275 * month d) div 9"
    using floor_divide_of_int_eq [of "275 * month d" 9, where ?'a = real] by simp
  have b: "\<lfloor>real_of_int (month d + 9) / 12\<rfloor> = (month d + 9) div 12"
    using floor_divide_of_int_eq [of "month d + 9" 12, where ?'a = real] by simp
  have c: "\<lfloor>real_of_int (year d) / 4\<rfloor> = year d div 4"
    using floor_divide_of_int_eq [of "year d" 4, where ?'a = real] by simp
  have e: "year d - 4 * (year d div 4) = year d mod 4"
    by (simp add: minus_mult_div_eq_mod)
  have f: "\<lfloor>real_of_int (year d mod 4 + 2) / 3\<rfloor> = (year d mod 4 + 2) div 3"
    using floor_divide_of_int_eq [of "year d mod 4 + 2" 3, where ?'a = real] by simp
  show ?thesis
    unfolding day_of_year_def Let_def a b c e f by simp
qed

lemma month_cases:
  assumes "1 \<le> (m::int)" "m \<le> 12"
  shows "m = 1 \<or> m = 2 \<or> m = 3 \<or> m = 4 \<or> m = 5 \<or> m = 6 \<or> m = 7 \<or> m = 8 \<or> m = 9
         \<or> m = 10 \<or> m = 11 \<or> m = 12"
  using assms by arith

lemma year_term: "(y mod 4 + 2) div 3 = (if (y::int) mod 4 = 0 then 0 else 1)"
proof -
  have "0 \<le> y mod 4" "y mod 4 < 4" by simp_all
  then show ?thesis by (cases "y mod 4 = 0") auto
qed

lemma leap_mod4: "is_leap y \<Longrightarrow> y mod 4 = 0"
  by (auto simp: is_leap_def split: if_splits)

text \<open>
  On a date that \<open>datetime.date\<close> accepts, the value \<open>N\<close> of step 1 lies between 1 and 366.
\<close>

lemma day_of_year_bounds:
  assumes "valid_date d"
  shows "1 \<le> day_of_year d \<and> day_of_year d \<le> 366"
proof -
  from assms have m: "1 \<le> month d" "month d \<le> 12"
    and dd: "1 \<le> day d" "day d \<le> days_in_month (year d) (month d)"
    by (simp_all add: valid_date_def)
  from month_cases [OF m] show ?thesis
    using dd leap_mod4 [of "year d"]
    by (elim disjE) (auto simp: day_of_year_div year_term days_in_month_def split: if_splits)
qed

text \<open>
  Claim C6. The claim gives the range \<open>[1, 365]\<close> for the day of the year \<open>N\<close>, and so does
  the comment of the source above the four formulas (\<open>The range of N is 1 to 365\<close>). The
  code leaves that range: the 31st of December 2020 is a valid date and the formulas give
  \<open>N1 = 366\<close>, \<open>N2 = 1\<close>, \<open>N3 = 1\<close> and \<open>N = 366 - 1 + 31 - 30 = 366\<close>. The term \<open>N3\<close> only
  looks at the year modulo 4, so the same value comes out on the 31st of December 1900,
  the 365th and last day of a year that is not a leap year.
\<close>

theorem day_of_year_366:
  "valid_date \<lparr>year = 2020, month = 12, day = 31\<rparr> \<and>
   day_of_year \<lparr>year = 2020, month = 12, day = 31\<rparr> = 366 \<and>
   \<not> (day_of_year \<lparr>year = 2020, month = 12, day = 31\<rparr> \<le> 365) \<and>
   valid_date \<lparr>year = 1900, month = 12, day = 31\<rparr> \<and>
   is_leap 1900 = False \<and>
   day_of_year \<lparr>year = 1900, month = 12, day = 31\<rparr> = 366"
  by (simp add: day_of_year_div valid_date_def days_in_month_def is_leap_def)

subsection \<open>The constructor\<close>

text \<open>
  Claim C10. \<open>location(latitude, longitude)\<close> raises \<open>AssertionError\<close> when one of the two
  arguments is not a float, and for two floats it returns an object that holds them
  unchanged.
\<close>

theorem location_requires_float:
  "(\<not> is_float lat \<or> \<not> is_float lon
      \<longrightarrow> fst (location_new modname lat lon w) = Inl AssertionError) \<and>
   fst (location_new modname (PyFloat a) (PyFloat b) w) =
     Inr \<lparr>verbose = 1, start_time = now w, typename = ''location'',
          classname = modname @ ''.location'', latitude = a, longitude = b,
          zenith_attr = [''official'']\<rparr>"
  by (simp add: location_new_def location_init_def set_verbose_def Let_def is_float_def
      float_of_def case_prod_beta)

theorem location_requires_float_witness:
  "\<not> is_float (PyInt 51) \<and>
   fst (location_new ''sunrise_sunset'' (PyInt 51) (PyFloat (-1.515)) world0)
     = Inl AssertionError \<and>
   fst (location_new ''sunrise_sunset'' (PyFloat 51.41416666) (PyFloat (-1.515)) world0) =
     Inr \<lparr>verbose = 1, start_time = 0, typename = ''location'',
          classname = ''sunrise_sunset.location'', latitude = 51.41416666,
          longitude = -1.515, zenith_attr = [''official'']\<rparr>"
  using location_requires_float [of "PyInt 51" "PyFloat (-1.515)" "''sunrise_sunset''" world0
      "51.41416666" "-1.515"]
  by (simp add: is_float_def world0_def)

subsection \<open>No hidden state\<close>

text \<open>
  Claim C7. The result of \<open>ss_calc\<close> is a function of the latitude, the longitude, the
  date, the zenith and the direction: the verbosity of the object, its start time, the
  clock and the lines printed before do not enter it, and a second call after a first one
  returns the same result.
\<close>

theorem ss_calc_no_hidden_state:
  "fst (ss_calc (self\<lparr>verbose := v, start_time := st\<rparr>) d z rising w') =
     fst (ss_calc self d z rising w) \<and>
   fst (ss_calc self d z rising (snd (ss_calc self d z rising w))) =
     fst (ss_calc self d z rising w)"
  by (simp add: ss_calc_result cos_hour_angle_def utc_unadjusted_def sun_longitude_def
      approx_time_of_def lng_hour_def)

end
